theory Spec2Isabelle
  imports Complex_Main "HOL-Library.Word" "HOL-Library.Char_ord" "HOL-Library.List_Lexorder"
begin

section \<open>Errors, integers and floats\<close>

text \<open>
  The metric functions of \<^verbatim>\<open>agent_tools.py\<close> read pandas DataFrames. Two exceptions can
  leave them: the \<^verbatim>\<open>KeyError\<close> pandas raises when a column label is absent (the
  specification calls it SchemaError), and the \<^verbatim>\<open>ValueError\<close> that
  \<^verbatim>\<open>Series.idxmax\<close> raises when there is no maximum to return (the specification
  calls it EmptyInputError).
\<close>

datatype error = KeyError | ValueError

text \<open>
  The integer columns (\<open>Quantity\<close>, \<open>Stock\<close>) have dtype int64: sums wrap around
  modulo \<open>2 ^ 64\<close> and comparisons read the two's complement value.
\<close>

type_synonym int64 = "64 word"

text \<open>
  A binary64 float: a finite value, given by the real number it denotes (\<open>Fin 0\<close> is
  +0.0), the negative zero, the two infinities, or NaN.
\<close>

datatype pyfloat = Fin real | NegZero | PInf | NInf | NaN

fun is_nan :: "pyfloat \<Rightarrow> bool" where
  "is_nan NaN = True"
| "is_nan x = False"

fun is_inf :: "pyfloat \<Rightarrow> bool" where
  "is_inf PInf = True"
| "is_inf NInf = True"
| "is_inf x = False"

fun is_zero :: "pyfloat \<Rightarrow> bool" where
  "is_zero (Fin x) = (x = 0)"
| "is_zero NegZero = True"
| "is_zero x = False"

text \<open>The sign bit.\<close>

fun is_neg :: "pyfloat \<Rightarrow> bool" where
  "is_neg (Fin x) = (x < 0)"
| "is_neg NegZero = True"
| "is_neg NInf = True"
| "is_neg x = False"

fun fval :: "pyfloat \<Rightarrow> real" where
  "fval (Fin x) = x"
| "fval x = 0"

definition signed_zero :: "bool \<Rightarrow> pyfloat" where
  "signed_zero neg = (if neg then NegZero else Fin 0)"

definition signed_inf :: "bool \<Rightarrow> pyfloat" where
  "signed_inf neg = (if neg then NInf else PInf)"

text \<open>
  The operations of IEEE 754 as numpy performs them (no exception on a zero divisor or an
  invalid operation). The special cases are written out; a finite nonzero exact result is
  handed to the rounding function \<open>rnd\<close>, which returns the float it rounds to (an
  infinity on overflow, a zero on underflow).
\<close>

definition fdiv :: "(real \<Rightarrow> pyfloat) \<Rightarrow> pyfloat \<Rightarrow> pyfloat \<Rightarrow> pyfloat" where
  "fdiv rnd x y =
     (if is_nan x \<or> is_nan y then NaN
      else if is_inf x then (if is_inf y then NaN else signed_inf (is_neg x \<noteq> is_neg y))
      else if is_inf y then signed_zero (is_neg x \<noteq> is_neg y)
      else if is_zero y then (if is_zero x then NaN else signed_inf (is_neg x \<noteq> is_neg y))
      else if is_zero x then signed_zero (is_neg x \<noteq> is_neg y)
      else rnd (fval x / fval y))"

definition fmul :: "(real \<Rightarrow> pyfloat) \<Rightarrow> pyfloat \<Rightarrow> pyfloat \<Rightarrow> pyfloat" where
  "fmul rnd x y =
     (if is_nan x \<or> is_nan y then NaN
      else if is_inf x \<or> is_inf y then
        (if is_zero x \<or> is_zero y then NaN else signed_inf (is_neg x \<noteq> is_neg y))
      else if is_zero x \<or> is_zero y then signed_zero (is_neg x \<noteq> is_neg y)
      else rnd (fval x * fval y))"

definition fadd :: "(real \<Rightarrow> pyfloat) \<Rightarrow> pyfloat \<Rightarrow> pyfloat \<Rightarrow> pyfloat" where
  "fadd rnd x y =
     (if is_nan x \<or> is_nan y then NaN
      else if is_inf x then (if is_inf y \<and> is_neg x \<noteq> is_neg y then NaN else x)
      else if is_inf y then y
      else if is_zero x \<and> is_zero y then signed_zero (is_neg x \<and> is_neg y)
      else if is_zero x then y
      else if is_zero y then x
      else if fval x + fval y = 0 then Fin 0
      else rnd (fval x + fval y))"

fun fneg :: "pyfloat \<Rightarrow> pyfloat" where
  "fneg (Fin x) = (if x = 0 then NegZero else Fin (- x))"
| "fneg NegZero = Fin 0"
| "fneg PInf = NInf"
| "fneg NInf = PInf"
| "fneg NaN = NaN"

definition fsub :: "(real \<Rightarrow> pyfloat) \<Rightarrow> pyfloat \<Rightarrow> pyfloat \<Rightarrow> pyfloat" where
  "fsub rnd x y = fadd rnd x (fneg y)"

text \<open>
  The comparisons \<^verbatim>\<open><\<close>, \<^verbatim>\<open>==\<close> and \<^verbatim>\<open><=\<close>: exact, false whenever an operand is
  NaN, and blind to the sign of zero.
\<close>

fun flt :: "pyfloat \<Rightarrow> pyfloat \<Rightarrow> bool" where
  "flt NaN y = False"
| "flt x NaN = False"
| "flt PInf y = False"
| "flt x PInf = True"
| "flt x NInf = False"
| "flt NInf y = True"
| "flt x y = (fval x < fval y)"



text \<open>Conversion of an integer to float64, as mixed integer and float arithmetic does.\<close>

definition float_of_int :: "(real \<Rightarrow> pyfloat) \<Rightarrow> int \<Rightarrow> pyfloat" where
  "float_of_int rnd i = (if i = 0 then Fin 0 else rnd (real_of_int i))"

text \<open>
  What the source leaves to its libraries is a parameter of the model: the rounding of
  binary64, and the two float summations of pandas, \<^verbatim>\<open>Series.sum()\<close> and the sum of
  one group of \<^verbatim>\<open>groupby(...).sum()\<close>, each applied to the values in row order (the
  order of accumulation, the compensation of rounding errors and the skipping of NaN are
  the library's). Every property below is proved for all values of these parameters.
  Integer sums need no parameter: addition modulo \<open>2 ^ 64\<close> gives the same result in any
  order.
\<close>

record arith =
  rnd :: "real \<Rightarrow> pyfloat"
  series_sum :: "pyfloat list \<Rightarrow> pyfloat"
  group_sum :: "pyfloat list \<Rightarrow> pyfloat"

text \<open>\<^verbatim>\<open>Series.sum()\<close> of a float column; the sum of an empty Series is 0.\<close>

definition float_sum :: "arith \<Rightarrow> pyfloat list \<Rightarrow> pyfloat" where
  "float_sum ar xs = (if xs = [] then Fin 0 else series_sum ar xs)"

section \<open>Tables\<close>

text \<open>
  Rows of the sales log and of the inventory snapshot, with the column labels of the
  source (\<^verbatim>\<open>'Cost per Unit'\<close>, \<^verbatim>\<open>'Total Price'\<close>) as field names.
\<close>

record sales_row =
  Item :: string
  Quantity :: int64
  Cost_per_Unit :: pyfloat
  Total_Price :: pyfloat
  Profit :: pyfloat
  Time :: string

record inventory_row =
  inv_Item :: string
  Stock :: int64

text \<open>
  A DataFrame: its rows, and the labels of the columns it really has. A cell of a column
  whose label is not in \<open>columns\<close> is never read: every access goes through
  \<open>getitem\<close>, which raises \<^verbatim>\<open>KeyError\<close> for an absent label, as \<^verbatim>\<open>df['label']\<close> does.
\<close>

record 'r dataframe =
  rows :: "'r list"
  columns :: "string list"

definition getitem :: "'r dataframe \<Rightarrow> string \<Rightarrow> ('r \<Rightarrow> 'a) \<Rightarrow> error + 'a list" where
  "getitem df label cell =
     (if label \<in> set (columns df) then Inr (map cell (rows df)) else Inl KeyError)"

section \<open>Grouping and maximum\<close>

text \<open>
  \<^verbatim>\<open>df.groupby(k)[v].sum()\<close>: a Series indexed by the distinct keys in sorted order
  (\<^verbatim>\<open>sort=True\<close> is the default of \<^verbatim>\<open>groupby\<close>), each with the aggregate of the
  values of its rows, taken in row order. Strings are ordered as Python orders them,
  lexicographically by character code.
\<close>

definition group_keys :: "('r \<Rightarrow> string) \<Rightarrow> 'r list \<Rightarrow> string list" where
  "group_keys key rs = sort (remdups (map key rs))"

definition groupby_agg ::
  "'r dataframe \<Rightarrow> string \<Rightarrow> ('r \<Rightarrow> string) \<Rightarrow> string \<Rightarrow> ('r \<Rightarrow> 'c) \<Rightarrow> ('c list \<Rightarrow> 'v)
     \<Rightarrow> error + (string \<times> 'v) list" where
  "groupby_agg df klabel key vlabel cell agg =
     (if klabel \<notin> set (columns df) then Inl KeyError
      else if vlabel \<notin> set (columns df) then Inl KeyError
      else Inr (map (\<lambda>k. (k, agg (map cell (filter (\<lambda>r. key r = k) (rows df)))))
                    (group_keys key (rows df))))"

text \<open>
  \<^verbatim>\<open>Series.idxmax()\<close>: the label of the first occurrence of the maximum. The scan keeps
  an entry until a strictly greater one comes.
\<close>

fun idxmax_from :: "('v \<Rightarrow> 'v \<Rightarrow> bool) \<Rightarrow> string \<Rightarrow> 'v \<Rightarrow> (string \<times> 'v) list \<Rightarrow> string" where
  "idxmax_from lt k v [] = k"
| "idxmax_from lt k v ((k', v') # s) =
     (if lt v v' then idxmax_from lt k' v' s else idxmax_from lt k v s)"

definition int64_less :: "int64 \<Rightarrow> int64 \<Rightarrow> bool" where
  "int64_less a b = (sint a < sint b)"

fun idxmax_int64 :: "(string \<times> int64) list \<Rightarrow> error + string" where
  "idxmax_int64 [] = Inl ValueError"
| "idxmax_int64 ((k, v) # s) = Inr (idxmax_from int64_less k v s)"

text \<open>
  On floats \<^verbatim>\<open>idxmax\<close> skips NaN: it takes the maximum with every NaN counted as minus
  infinity. On a Series with nothing but NaN there is no label to return
  (\<^verbatim>\<open>ValueError\<close>; pandas 2 still returns a NaN label there, with a deprecation warning).
\<close>

fun fill_neginf :: "pyfloat \<Rightarrow> pyfloat" where
  "fill_neginf NaN = NInf"
| "fill_neginf x = x"

definition float_less_skipna :: "pyfloat \<Rightarrow> pyfloat \<Rightarrow> bool" where
  "float_less_skipna a b = flt (fill_neginf a) (fill_neginf b)"

fun idxmax_float :: "(string \<times> pyfloat) list \<Rightarrow> error + string" where
  "idxmax_float [] = Inl ValueError"
| "idxmax_float ((k, v) # s) =
     (if list_all (\<lambda>(k', v'). is_nan v') ((k, v) # s) then Inl ValueError
      else Inr (idxmax_from float_less_skipna k v s))"

section \<open>Metric functions\<close>

definition total_revenue :: "arith \<Rightarrow> sales_row dataframe \<Rightarrow> error + pyfloat" where
  "total_revenue ar df =
     (case getitem df ''Total Price'' Total_Price of
        Inl e \<Rightarrow> Inl e
      | Inr prices \<Rightarrow> Inr (float_sum ar prices))"

text \<open>
  The product of a float column and an integer column is taken cell by cell, the integer
  converted to float.
\<close>

definition total_cost :: "arith \<Rightarrow> sales_row dataframe \<Rightarrow> error + pyfloat" where
  "total_cost ar df =
     (case getitem df ''Cost per Unit'' Cost_per_Unit of
        Inl e \<Rightarrow> Inl e
      | Inr costs \<Rightarrow>
          (case getitem df ''Quantity'' Quantity of
             Inl e \<Rightarrow> Inl e
           | Inr qtys \<Rightarrow>
               Inr (float_sum ar
                      (map (\<lambda>(c, q). fmul (rnd ar) c (float_of_int (rnd ar) (sint q)))
                           (zip costs qtys)))))"

definition total_profit :: "arith \<Rightarrow> sales_row dataframe \<Rightarrow> error + pyfloat" where
  "total_profit ar df =
     (case getitem df ''Profit'' Profit of
        Inl e \<Rightarrow> Inl e
      | Inr profits \<Rightarrow> Inr (float_sum ar profits))"

text \<open>
  \<^verbatim>\<open>if revenue\<close> tests \<^verbatim>\<open>revenue != 0\<close>: both zeros are false, an infinity and NaN
  are true.
\<close>

definition gross_margin :: "arith \<Rightarrow> sales_row dataframe \<Rightarrow> error + pyfloat" where
  "gross_margin ar df =
     (case getitem df ''Total Price'' Total_Price of
        Inl e \<Rightarrow> Inl e
      | Inr prices \<Rightarrow>
          (case getitem df ''Profit'' Profit of
             Inl e \<Rightarrow> Inl e
           | Inr profits \<Rightarrow>
               (let revenue = float_sum ar prices; profit = float_sum ar profits
                in Inr (if \<not> is_zero revenue
                        then fmul (rnd ar) (fdiv (rnd ar) profit revenue) (Fin 100)
                        else Fin 0))))"

definition total_units_sold :: "sales_row dataframe \<Rightarrow> error + int64" where
  "total_units_sold df =
     (case getitem df ''Quantity'' Quantity of
        Inl e \<Rightarrow> Inl e
      | Inr qtys \<Rightarrow> Inr (sum_list qtys))"

definition number_of_transactions :: "sales_row dataframe \<Rightarrow> error + nat" where
  "number_of_transactions df = Inr (length (rows df))"

text \<open>
  The conditional expression tests \<^verbatim>\<open>len(df)\<close> first: on a table without rows the
  column is not read at all. The quotient of the two integers is a float division.
\<close>

definition average_basket_size :: "arith \<Rightarrow> sales_row dataframe \<Rightarrow> error + pyfloat" where
  "average_basket_size ar df =
     (if length (rows df) \<noteq> 0 then
        (case getitem df ''Quantity'' Quantity of
           Inl e \<Rightarrow> Inl e
         | Inr qtys \<Rightarrow>
             Inr (fdiv (rnd ar) (float_of_int (rnd ar) (sint (sum_list qtys)))
                                (float_of_int (rnd ar) (int (length (rows df))))))
      else Inr (Fin 0))"

text \<open>The labels of \<open>Time\<close> are strings, on which \<^verbatim>\<open>str\<close> is the identity.\<close>

definition peak_sales_hour :: "arith \<Rightarrow> sales_row dataframe \<Rightarrow> error + string" where
  "peak_sales_hour ar df =
     (case groupby_agg df ''Time'' Time ''Total Price'' Total_Price (group_sum ar) of
        Inl e \<Rightarrow> Inl e
      | Inr s \<Rightarrow> idxmax_float s)"

definition top_selling_item :: "sales_row dataframe \<Rightarrow> error + string" where
  "top_selling_item df =
     (case groupby_agg df ''Item'' Item ''Quantity'' Quantity sum_list of
        Inl e \<Rightarrow> Inl e
      | Inr s \<Rightarrow> idxmax_int64 s)"

definition most_profitable_item :: "arith \<Rightarrow> sales_row dataframe \<Rightarrow> error + string" where
  "most_profitable_item ar df =
     (case groupby_agg df ''Item'' Item ''Profit'' Profit (group_sum ar) of
        Inl e \<Rightarrow> Inl e
      | Inr s \<Rightarrow> idxmax_float s)"

text \<open>
  \<^verbatim>\<open>df[mask]\<close>: the rows at which the boolean Series is true, with the same columns.
\<close>

definition select :: "'r dataframe \<Rightarrow> bool list \<Rightarrow> 'r dataframe" where
  "select df flags = df\<lparr>rows := map fst (filter snd (zip (rows df) flags))\<rparr>"

definition low_stock_items :: "inventory_row dataframe \<Rightarrow> int \<Rightarrow> error + string list" where
  "low_stock_items inventory_df threshold =
     (case getitem inventory_df ''Stock'' Stock of
        Inl e \<Rightarrow> Inl e
      | Inr stocks \<Rightarrow>
          getitem (select inventory_df (map (\<lambda>s. sint s < threshold) stocks)) ''Item'' inv_Item)"

text \<open>
  \<^verbatim>\<open>list(all_items - sold_items)\<close> lists a Python set in an order the language does not
  fix, so the result is modelled as the set itself.
\<close>

definition unsold_items ::
  "inventory_row dataframe \<Rightarrow> sales_row dataframe \<Rightarrow> error + string set" where
  "unsold_items inventory_df sales_df =
     (case getitem sales_df ''Item'' Item of
        Inl e \<Rightarrow> Inl e
      | Inr sold \<Rightarrow>
          (case getitem inventory_df ''Item'' inv_Item of
             Inl e \<Rightarrow> Inl e
           | Inr everything \<Rightarrow>
               (let sold_items = set sold; all_items = set everything
                in Inr (all_items - sold_items))))"

definition fast_movers :: "inventory_row dataframe \<Rightarrow> error + string list" where
  "fast_movers inventory_df =
     (case getitem inventory_df ''Stock'' Stock of
        Inl e \<Rightarrow> Inl e
      | Inr stocks \<Rightarrow>
          getitem (select inventory_df (map (\<lambda>s. sint s \<le> 1) stocks)) ''Item'' inv_Item)"

text \<open>
  \<^verbatim>\<open>groupby('Item').agg({...})\<close> raises \<^verbatim>\<open>KeyError\<close> when the key column or one of
  the aggregated columns is absent. The grouped frame has one row per item, in sorted key
  order: the item, its summed quantity, summed revenue and summed profit; the margin is
  then computed per row without any guard on the divisor.
\<close>

definition low_margin_high_sellers ::
  "arith \<Rightarrow> sales_row dataframe \<Rightarrow> pyfloat \<Rightarrow> int \<Rightarrow> error + string list" where
  "low_margin_high_sellers ar df margin_threshold qty_threshold =
     (if ''Item'' \<notin> set (columns df) then Inl KeyError
      else if \<not> set [''Quantity'', ''Total Price'', ''Profit''] \<subseteq> set (columns df) then Inl KeyError
      else
        (let grouped = map (\<lambda>k. (k, sum_list (map Quantity (filter (\<lambda>r. Item r = k) (rows df))),
                                      group_sum ar (map Total_Price (filter (\<lambda>r. Item r = k) (rows df))),
                                      group_sum ar (map Profit (filter (\<lambda>r. Item r = k) (rows df)))))
                           (group_keys Item (rows df));
             with_margin = map (\<lambda>(k, q, r, p). (k, q, fmul (rnd ar) (fdiv (rnd ar) p r) (Fin 100)))
                               grouped;
             flagged = filter (\<lambda>(k, q, m). qty_threshold \<le> sint q \<and> flt m margin_threshold)
                              with_margin
         in Inr (map fst flagged)))"

section \<open>The profit identity as the specification states it\<close>

text \<open>
  The specification relates the three totals on tables whose rows are consistent: the
  profit of a row is its price minus unit cost times quantity. \<open>row_profit\<close> computes
  that in float arithmetic, \<open>exactly_consistent\<close> states it of the exact values of finite
  cells, and \<open>exact_sum\<close> says that a column sum carries no rounding error.
\<close>

definition row_profit :: "arith \<Rightarrow> sales_row \<Rightarrow> pyfloat" where
  "row_profit ar r =
     fsub (rnd ar) (Total_Price r)
       (fmul (rnd ar) (Cost_per_Unit r) (float_of_int (rnd ar) (sint (Quantity r))))"

definition consistent :: "arith \<Rightarrow> sales_row dataframe \<Rightarrow> bool" where
  "consistent ar df = list_all (\<lambda>r. Profit r = row_profit ar r) (rows df)"

definition exact_cost :: "sales_row \<Rightarrow> real" where
  "exact_cost r = fval (Cost_per_Unit r) * real_of_int (sint (Quantity r))"

definition exactly_consistent :: "sales_row \<Rightarrow> bool" where
  "exactly_consistent r =
     (case (Total_Price r, Cost_per_Unit r, Profit r) of
        (Fin tp, Fin c, Fin p) \<Rightarrow> p = tp - c * real_of_int (sint (Quantity r))
      | _ \<Rightarrow> False)"

definition exact_sum :: "arith \<Rightarrow> pyfloat list \<Rightarrow> bool" where
  "exact_sum ar xs = (float_sum ar xs = Fin (sum_list (map fval xs)))"

section \<open>Summary composer\<close>

text \<open>
  The arguments of \<^verbatim>\<open>natural_language_summary\<close>. The four list arguments default to
  \<^verbatim>\<open>None\<close>.
\<close>

record metric_bundle =
  b_total_revenue :: pyfloat
  b_total_cost :: pyfloat
  b_total_profit :: pyfloat
  b_gross_margin :: pyfloat
  b_total_units_sold :: int
  b_number_of_transactions :: int
  b_average_basket_size :: pyfloat
  b_peak_sales_hour :: string
  b_top_selling_item :: string
  b_most_profitable_item :: string
  b_low_stock_items :: "string list option"
  b_unsold_items :: "string list option"
  b_fast_movers :: "string list option"
  b_low_margin_high_sellers :: "string list option"

text \<open>
  The conversions of Python's format mini-language (\<^verbatim>\<open>:,.2f\<close>, \<^verbatim>\<open>:.1f\<close>,
  \<^verbatim>\<open>:.2f\<close> and the plain \<^verbatim>\<open>{}\<close> of an integer) belong to the language runtime and
  are parameters of the model.
\<close>

record formatters =
  fmt_comma_2f :: "pyfloat \<Rightarrow> string"
  fmt_1f :: "pyfloat \<Rightarrow> string"
  fmt_2f :: "pyfloat \<Rightarrow> string"
  fmt_int :: "int \<Rightarrow> string"

text \<open>\<^verbatim>\<open>sep.join(xs)\<close>\<close>

fun join :: "string \<Rightarrow> string list \<Rightarrow> string" where
  "join sep [] = []"
| "join sep [x] = x"
| "join sep (x # y # ys) = x @ sep @ join sep (y # ys)"

text \<open>Truth value of an optional list: \<^verbatim>\<open>None\<close> and the empty list are false.\<close>

fun truthy :: "'a list option \<Rightarrow> bool" where
  "truthy None = False"
| "truthy (Some []) = False"
| "truthy (Some (x # xs)) = True"

fun items_of :: "'a list option \<Rightarrow> 'a list" where
  "items_of None = []"
| "items_of (Some xs) = xs"

definition summary_head :: "formatters \<Rightarrow> metric_bundle \<Rightarrow> string" where
  "summary_head fmt b =
     ''Your store earned $'' @ fmt_comma_2f fmt (b_total_revenue b) @
     '' in revenue and made $'' @ fmt_comma_2f fmt (b_total_profit b) @
     '' in profit today, '' @
     ''with a gross margin of '' @ fmt_1f fmt (b_gross_margin b) @ ''%. '' @
     ''A total of '' @ fmt_int fmt (b_total_units_sold b) @
     '' items were sold in '' @ fmt_int fmt (b_number_of_transactions b) @
     '' transactions. '' @
     ''Average basket size was '' @ fmt_2f fmt (b_average_basket_size b) @
     '' units per transaction. '' @
     ''Peak sales occurred at '' @ b_peak_sales_hour b @ ''. '' @
     b_top_selling_item b @ '' led sales, while '' @ b_most_profitable_item b @
     '' was the most profitable item. ''"

definition natural_language_summary :: "formatters \<Rightarrow> metric_bundle \<Rightarrow> string" where
  "natural_language_summary fmt b =
     (let summary = summary_head fmt b;
          summary = (if truthy (b_low_stock_items b)
                     then summary @ ''\<newline>Low stock items: '' @
                          join '', '' (items_of (b_low_stock_items b)) @ ''.''
                     else summary);
          summary = (if truthy (b_unsold_items b)
                     then summary @ ''\<newline>Unsold items: '' @
                          join '', '' (items_of (b_unsold_items b)) @ ''.''
                     else summary);
          summary = (if truthy (b_fast_movers b)
                     then summary @ ''\<newline>Fast movers (sold out/nearly sold out): '' @
                          join '', '' (items_of (b_fast_movers b)) @ ''.''
                     else summary);
          summary = (if truthy (b_low_margin_high_sellers b)
                     then summary @ ''\<newline>High-selling, low-margin items: '' @
                          join '', '' (items_of (b_low_margin_high_sellers b)) @ ''.''
                     else summary)
      in summary)"

section \<open>The report as the specification describes it\<close>

text \<open>
  The specification describes the report as a fixed first line followed by one line for
  each diagnostic list that is not empty: a fixed label, the items joined by commas, and a
  full stop. These two definitions follow that description, to be compared with
  \<open>natural_language_summary\<close>.
\<close>

definition listed_line :: "string \<Rightarrow> string list option \<Rightarrow> string list" where
  "listed_line label xs =
     (case xs of
        Some (y # ys) \<Rightarrow> [label @ join '', '' (y # ys) @ ''.'']
      | _ \<Rightarrow> [])"

definition report_lines :: "formatters \<Rightarrow> metric_bundle \<Rightarrow> string list" where
  "report_lines fmt b =
     summary_head fmt b
     # listed_line ''Low stock items: '' (b_low_stock_items b)
     @ listed_line ''Unsold items: '' (b_unsold_items b)
     @ listed_line ''Fast movers (sold out/nearly sold out): '' (b_fast_movers b)
     @ listed_line ''High-selling, low-margin items: '' (b_low_margin_high_sellers b)"

text \<open>
  The lines of a text are the pieces between its newline characters, as
  \<^verbatim>\<open>text.split('\n')\<close> gives them.
\<close>

fun split_on :: "char \<Rightarrow> string \<Rightarrow> string list" where
  "split_on c [] = [[]]"
| "split_on c (x # xs) =
     (if x = c then [] # split_on c xs
      else (x # hd (split_on c xs)) # tl (split_on c xs))"

section \<open>Binary64 arithmetic\<close>

text \<open>
  One value of the parameters, used to run the functions on concrete tables: rounding to
  the nearest binary64 number, ties to the even significand, overflow to an infinity; and
  sums accumulated from left to right over the values that are not NaN.

  \<open>binade x\<close> is the exponent \<open>e\<close> with \<open>2 ^ e \<le> \<bar>x\<bar> < 2 ^ (e + 1)\<close>, kept within the
  exponent range of binary64 (subnormal numbers share the exponent -1022); the spacing of
  floats around \<open>x\<close> is \<open>2 ^ (e - 52)\<close>.
\<close>

definition pow2 :: "int \<Rightarrow> real" where
  "pow2 e = (if 0 \<le> e then 2 ^ nat e else 1 / 2 ^ nat (- e))"

fun binade_search :: "nat \<Rightarrow> real \<Rightarrow> int" where
  "binade_search 0 a = - 1022"
| "binade_search (Suc n) a =
     (if pow2 (int (Suc n) - 1022) \<le> a then int (Suc n) - 1022 else binade_search n a)"

definition binade :: "real \<Rightarrow> int" where
  "binade x = binade_search 2045 \<bar>x\<bar>"

definition round_half_even :: "real \<Rightarrow> int" where
  "round_half_even y =
     (let n = \<lfloor>y\<rfloor>; f = y - of_int n
      in if f < 1 / 2 then n else if 1 / 2 < f then n + 1 else if even n then n else n + 1)"

definition round64 :: "real \<Rightarrow> pyfloat" where
  "round64 x =
     (let u = pow2 (binade x - 52); n = round_half_even (x / u); r = of_int n * u
      in if pow2 1024 \<le> \<bar>r\<bar> then (if 0 < x then PInf else NInf)
         else if n = 0 then (if x < 0 then NegZero else Fin 0)
         else Fin r)"

definition sequential_sum :: "pyfloat list \<Rightarrow> pyfloat" where
  "sequential_sum xs = foldl (fadd round64) (Fin 0) (filter (\<lambda>x. \<not> is_nan x) xs)"

definition binary64 :: arith where
  "binary64 = \<lparr>rnd = round64, series_sum = sequential_sum, group_sum = sequential_sum\<rparr>"

section \<open>Fixtures\<close>

text \<open>
  A decimal literal of the source language denotes the float nearest to it:
  \<open>round64 (1 / 10)\<close> is the float \<^verbatim>\<open>0.1\<close>.

  The column labels of a sales log; the two-row sales log and the inventory of the
  specification's end-to-end scenario; a sales log in which the sums of the two groups are
  equal as floats (\<^verbatim>\<open>0.1 + 0.3 == 0.4\<close>) and as integers, with rows out of key order.
\<close>

definition sales_columns :: "string list" where
  "sales_columns = [''Item'', ''Quantity'', ''Cost per Unit'', ''Total Price'', ''Profit'', ''Time'']"

definition example_sales :: "sales_row dataframe" where
  "example_sales =
     \<lparr>rows =
        [\<lparr>Item = ''Coffee'', Quantity = 3, Cost_per_Unit = Fin 1, Total_Price = Fin 9,
          Profit = Fin 6, Time = ''09:00''\<rparr>,
         \<lparr>Item = ''Tea'', Quantity = 1, Cost_per_Unit = Fin (1 / 2), Total_Price = Fin 2,
          Profit = Fin (3 / 2), Time = ''10:00''\<rparr>],
      columns = sales_columns\<rparr>"

definition example_inventory :: "inventory_row dataframe" where
  "example_inventory =
     \<lparr>rows =
        [\<lparr>inv_Item = ''Coffee'', Stock = 2\<rparr>,
         \<lparr>inv_Item = ''Tea'', Stock = 50\<rparr>,
         \<lparr>inv_Item = ''Milk'', Stock = 0\<rparr>],
      columns = [''Item'', ''Stock'']\<rparr>"



text \<open>
  A sales log with two items given away: \<open>Flyer\<close> with no revenue and no profit, and
  \<open>Sample\<close> with no revenue and a loss.
\<close>

definition giveaway_sales :: "sales_row dataframe" where
  "giveaway_sales =
     \<lparr>rows =
        [\<lparr>Item = ''Flyer'', Quantity = 10, Cost_per_Unit = Fin 0, Total_Price = Fin 0,
          Profit = Fin 0, Time = ''09:00''\<rparr>,
         \<lparr>Item = ''Milk'', Quantity = 6, Cost_per_Unit = Fin 1, Total_Price = Fin 16,
          Profit = Fin 1, Time = ''10:00''\<rparr>,
         \<lparr>Item = ''Sample'', Quantity = 8, Cost_per_Unit = Fin (1 / 2), Total_Price = Fin 0,
          Profit = Fin (- 4), Time = ''10:00''\<rparr>],
      columns = sales_columns\<rparr>"

text \<open>
  A sales log in which every row's profit is exactly its price minus its cost, while the
  sums of the columns round: \<^verbatim>\<open>0.1 + 0.3\<close> is \<^verbatim>\<open>0.4\<close>, but
  \<^verbatim>\<open>(0.2 + 0.5) - (0.1 + 0.2)\<close> is \<^verbatim>\<open>0.3999999999999999\<close>.
\<close>

definition rounding_sales :: "sales_row dataframe" where
  "rounding_sales =
     \<lparr>rows =
        [\<lparr>Item = ''Gum'', Quantity = 1, Cost_per_Unit = round64 (1 / 10),
          Total_Price = round64 (2 / 10), Profit = round64 (1 / 10), Time = ''09:00''\<rparr>,
         \<lparr>Item = ''Mint'', Quantity = 1, Cost_per_Unit = round64 (2 / 10),
          Total_Price = Fin (1 / 2), Profit = round64 (3 / 10), Time = ''10:00''\<rparr>],
      columns = sales_columns\<rparr>"

text \<open>A sales log whose two prices add up beyond the largest finite float.\<close>

definition overflow_sales :: "sales_row dataframe" where
  "overflow_sales =
     \<lparr>rows =
        [\<lparr>Item = ''Yacht'', Quantity = 1, Cost_per_Unit = Fin 1, Total_Price = Fin (2 ^ 1023),
          Profit = Fin 1, Time = ''09:00''\<rparr>,
         \<lparr>Item = ''Yacht'', Quantity = 1, Cost_per_Unit = Fin 1, Total_Price = Fin (2 ^ 1023),
          Profit = Fin 1, Time = ''10:00''\<rparr>],
      columns = sales_columns\<rparr>"

text \<open>
  A sales log and an inventory whose frames carry rows but none of the expected column
  labels; a bundle of metrics, and stand-ins for the formatters that print its figures
  (the properties of the summary hold for any formatters).
\<close>

definition headless_sales :: "sales_row dataframe" where
  "headless_sales =
     \<lparr>rows =
        [\<lparr>Item = ''Coffee'', Quantity = 3, Cost_per_Unit = Fin 1, Total_Price = Fin 9,
          Profit = Fin 6, Time = ''09:00''\<rparr>],
      columns = []\<rparr>"

definition headless_inventory :: "inventory_row dataframe" where
  "headless_inventory = \<lparr>rows = [\<lparr>inv_Item = ''Coffee'', Stock = 2\<rparr>], columns = []\<rparr>"

definition example_bundle :: metric_bundle where
  "example_bundle =
     \<lparr>b_total_revenue = Fin 11, b_total_cost = Fin (7 / 2), b_total_profit = Fin (15 / 2),
      b_gross_margin = Fin (750 / 11), b_total_units_sold = 4, b_number_of_transactions = 2,
      b_average_basket_size = Fin 2, b_peak_sales_hour = ''09:00'',
      b_top_selling_item = ''Coffee'', b_most_profitable_item = ''Coffee'',
      b_low_stock_items = Some [''Coffee'', ''Milk''], b_unsold_items = Some [],
      b_fast_movers = None, b_low_margin_high_sellers = Some [''Milk'']\<rparr>"

definition example_formatters :: formatters where
  "example_formatters =
     \<lparr>fmt_comma_2f = (\<lambda>x. if x = Fin 11 then ''11.00'' else ''7.50''),
      fmt_1f = (\<lambda>x. ''68.2''),
      fmt_2f = (\<lambda>x. ''2.00''),
      fmt_int = (\<lambda>n. if n = 4 then ''4'' else ''2'')\<rparr>"

section \<open>Properties\<close>

subsection \<open>Evaluating binary64 rounding\<close>

lemma pow2_powr: "pow2 e = 2 powr (real_of_int e)"
proof (cases "0 \<le> e")
  case True
  then have "real_of_int e = real (nat e)" by simp
  then have "2 powr (real_of_int e) = (2::real) ^ nat e"
    by (simp only: powr_realpow zero_less_numeral)
  with True show ?thesis by (simp add: pow2_def)
next
  case False
  then have "- real_of_int e = real (nat (- e))" by simp
  then have "2 powr (- real_of_int e) = (2::real) ^ nat (- e)"
    by (simp only: powr_realpow zero_less_numeral)
  moreover have "2 powr (real_of_int e) = 1 / 2 powr (- real_of_int e)"
    by (simp add: powr_minus_divide)
  ultimately show ?thesis using False by (simp add: pow2_def)
qed

lemma pow2_mono: "a \<le> b \<Longrightarrow> pow2 a \<le> pow2 b"
  by (simp add: pow2_powr)

lemma binade_search_top: "pow2 (int (Suc n) - 1022) \<le> a \<Longrightarrow> binade_search (Suc n) a = int (Suc n) - 1022"
  by simp

lemma binade_search_eq:
  "- 1022 \<le> e \<Longrightarrow> e \<le> int n - 1022 \<Longrightarrow> pow2 e \<le> a \<Longrightarrow> a < pow2 (e + 1)
   \<Longrightarrow> binade_search n a = e"
proof (induction n)
  case 0
  then show ?case by simp
next
  case (Suc n)
  show ?case
  proof (cases "e = int (Suc n) - 1022")
    case True
    with Suc.prems show ?thesis by simp
  next
    case False
    with Suc.prems have le: "e \<le> int n - 1022" by simp
    then have "pow2 (e + 1) \<le> pow2 (int (Suc n) - 1022)" by (intro pow2_mono) simp
    with Suc.prems have "\<not> pow2 (int (Suc n) - 1022) \<le> a" by simp
    with Suc.IH [OF Suc.prems(1) le Suc.prems(3,4)] show ?thesis by simp
  qed
qed

lemma binade_eq:
  "- 1022 \<le> e \<Longrightarrow> e \<le> 1023 \<Longrightarrow> pow2 e \<le> \<bar>x\<bar> \<Longrightarrow> \<bar>x\<bar> < pow2 (e + 1) \<Longrightarrow> binade x = e"
  unfolding binade_def by (rule binade_search_eq) simp_all

lemma binade_top: "pow2 1023 \<le> \<bar>x\<bar> \<Longrightarrow> binade x = 1023"
proof -
  assume "pow2 1023 \<le> \<bar>x\<bar>"
  then have "pow2 (int (Suc 2044) - 1022) \<le> \<bar>x\<bar>" by simp
  then have "binade_search (Suc 2044) \<bar>x\<bar> = int (Suc 2044) - 1022" by (rule binade_search_top)
  then show ?thesis by (simp add: binade_def)
qed

lemma round64_in_binade:
  assumes "- 1022 \<le> e" "e \<le> 1023" "pow2 e \<le> \<bar>x\<bar>" "\<bar>x\<bar> < pow2 (e + 1)"
  shows "round64 x =
     (let u = pow2 (e - 52); n = round_half_even (x / u); r = of_int n * u
      in if pow2 1024 \<le> \<bar>r\<bar> then (if 0 < x then PInf else NInf)
         else if n = 0 then (if x < 0 then NegZero else Fin 0)
         else Fin r)"
  unfolding round64_def binade_eq [OF assms] ..

lemma round64_huge:
  assumes "pow2 1023 \<le> \<bar>x\<bar>"
  shows "round64 x =
     (let u = pow2 971; n = round_half_even (x / u); r = of_int n * u
      in if pow2 1024 \<le> \<bar>r\<bar> then (if 0 < x then PInf else NInf)
         else if n = 0 then (if x < 0 then NegZero else Fin 0)
         else Fin r)"
  unfolding round64_def binade_top [OF assms] by simp

lemma sequential_sum_two:
  "\<not> is_nan x \<Longrightarrow> \<not> is_nan y \<Longrightarrow> sequential_sum [x, y] = fadd round64 (fadd round64 (Fin 0) x) y"
  by (simp add: sequential_sum_def)

lemma sequential_sum_one: "\<not> is_nan x \<Longrightarrow> sequential_sum [x] = fadd round64 (Fin 0) x"
  by (simp add: sequential_sum_def)

text \<open>
  One operation each, at the figures of the fixtures; the second argument of
  \<open>round64_in_binade\<close> is the binade of the exact result.
\<close>

lemma add_overflow: "fadd round64 (Fin (2 ^ 1023)) (Fin (2 ^ 1023)) = PInf"
  by (simp add: fadd_def)
    (subst round64_huge, simp_all add: pow2_def round_half_even_def Let_def)

lemma lit_0_1: "round64 (1 / 10) = Fin (3602879701896397 / 36028797018963968)"
  by (subst round64_in_binade [of "-4"]) (simp_all add: pow2_def round_half_even_def Let_def)

lemma lit_0_2: "round64 (1 / 5) = Fin (3602879701896397 / 18014398509481984)"
  by (subst round64_in_binade [of "-3"]) (simp_all add: pow2_def round_half_even_def Let_def)

lemma lit_0_3: "round64 (3 / 10) = Fin (5404319552844595 / 18014398509481984)"
  by (subst round64_in_binade [of "-2"]) (simp_all add: pow2_def round_half_even_def Let_def)



lemma int_1: "float_of_int round64 1 = Fin 1"
  by (simp add: float_of_int_def)
    (subst round64_in_binade [of "0"], simp_all add: pow2_def round_half_even_def Let_def)

lemma int_3: "float_of_int round64 3 = Fin 3"
  by (simp add: float_of_int_def)
    (subst round64_in_binade [of "1"], simp_all add: pow2_def round_half_even_def Let_def)

lemma add_9_2: "fadd round64 (Fin 9) (Fin 2) = Fin 11"
  by (simp add: fadd_def)
    (subst round64_in_binade [of "3"], simp_all add: pow2_def round_half_even_def Let_def)

lemma add_6_1h: "fadd round64 (Fin 6) (Fin (3 / 2)) = Fin (15 / 2)"
  by (simp add: fadd_def)
    (subst round64_in_binade [of "2"], simp_all add: pow2_def round_half_even_def Let_def)

lemma div_7h_11: "fdiv round64 (Fin (15 / 2)) (Fin 11) = Fin (6141272219141585 / 9007199254740992)"
  by (simp add: fdiv_def)
    (subst round64_in_binade [of "-1"], simp_all add: pow2_def round_half_even_def Let_def)

lemma mul_margin_68: "fmul round64 (Fin (6141272219141585 / 9007199254740992)) (Fin 100) = Fin (4797868921204363 / 70368744177664)"
  by (simp add: fmul_def)
    (subst round64_in_binade [of "6"], simp_all add: pow2_def round_half_even_def Let_def)

lemma mul_1_3: "fmul round64 (Fin 1) (Fin 3) = Fin 3"
  by (simp add: fmul_def)
    (subst round64_in_binade [of "1"], simp_all add: pow2_def round_half_even_def Let_def)

lemma mul_h_1: "fmul round64 (Fin (1 / 2)) (Fin 1) = Fin (1 / 2)"
  by (simp add: fmul_def)
    (subst round64_in_binade [of "-1"], simp_all add: pow2_def round_half_even_def Let_def)

lemma add_3_h: "fadd round64 (Fin 3) (Fin (1 / 2)) = Fin (7 / 2)"
  by (simp add: fadd_def)
    (subst round64_in_binade [of "1"], simp_all add: pow2_def round_half_even_def Let_def)

lemma sub_11_3h: "fsub round64 (Fin 11) (Fin (7 / 2)) = Fin (15 / 2)"
  by (simp add: fsub_def fadd_def)
    (subst round64_in_binade [of "2"], simp_all add: pow2_def round_half_even_def Let_def)

lemma add_01_03: "fadd round64 (Fin (3602879701896397 / 36028797018963968)) (Fin (5404319552844595 / 18014398509481984)) = Fin (3602879701896397 / 9007199254740992)"
  by (simp add: fadd_def)
    (subst round64_in_binade [of "-2"], simp_all add: pow2_def round_half_even_def Let_def)







lemma div_1_16: "fdiv round64 (Fin 1) (Fin 16) = Fin (1 / 16)"
  by (simp add: fdiv_def)
    (subst round64_in_binade [of "-4"], simp_all add: pow2_def round_half_even_def Let_def)

lemma mul_16th_100: "fmul round64 (Fin (1 / 16)) (Fin 100) = Fin (25 / 4)"
  by (simp add: fmul_def)
    (subst round64_in_binade [of "2"], simp_all add: pow2_def round_half_even_def Let_def)



lemma mul_01_1: "fmul round64 (Fin (3602879701896397 / 36028797018963968)) (Fin 1) = Fin (3602879701896397 / 36028797018963968)"
  by (simp add: fmul_def)
    (subst round64_in_binade [of "-4"], simp_all add: pow2_def round_half_even_def Let_def)

lemma mul_02_1: "fmul round64 (Fin (3602879701896397 / 18014398509481984)) (Fin 1) = Fin (3602879701896397 / 18014398509481984)"
  by (simp add: fmul_def)
    (subst round64_in_binade [of "-3"], simp_all add: pow2_def round_half_even_def Let_def)

lemma sub_02_01: "fsub round64 (Fin (3602879701896397 / 18014398509481984)) (Fin (3602879701896397 / 36028797018963968)) = Fin (3602879701896397 / 36028797018963968)"
  by (simp add: fsub_def fadd_def)
    (subst round64_in_binade [of "-4"], simp_all add: pow2_def round_half_even_def Let_def)

lemma sub_05_02: "fsub round64 (Fin (1 / 2)) (Fin (3602879701896397 / 18014398509481984)) = Fin (5404319552844595 / 18014398509481984)"
  by (simp add: fsub_def fadd_def)
    (subst round64_in_binade [of "-2"], simp_all add: pow2_def round_half_even_def Let_def)

lemma add_02_05: "fadd round64 (Fin (3602879701896397 / 18014398509481984)) (Fin (1 / 2)) = Fin (3152519739159347 / 4503599627370496)"
  by (simp add: fadd_def)
    (subst round64_in_binade [of "-1"], simp_all add: pow2_def round_half_even_def Let_def)

lemma add_01_02: "fadd round64 (Fin (3602879701896397 / 36028797018963968)) (Fin (3602879701896397 / 18014398509481984)) = Fin (1351079888211149 / 4503599627370496)"
  by (simp add: fadd_def)
    (subst round64_in_binade [of "-2"], simp_all add: pow2_def round_half_even_def Let_def)

lemma sub_07_03: "fsub round64 (Fin (3152519739159347 / 4503599627370496)) (Fin (1351079888211149 / 4503599627370496)) = Fin (900719925474099 / 2251799813685248)"
  by (simp add: fsub_def fadd_def)
    (subst round64_in_binade [of "-2"], simp_all add: pow2_def round_half_even_def Let_def)

lemma add_1_1: "fadd round64 (Fin 1) (Fin 1) = Fin 2"
  by (simp add: fadd_def)
    (subst round64_in_binade [of "1"], simp_all add: pow2_def round_half_even_def Let_def)

subsection \<open>The first maximum of a grouped sum\<close>

lemma group_keys_Nil: "group_keys key [] = []"
  by (simp add: group_keys_def)














subsection \<open>Special cases of the float operations\<close>

lemma fadd_zero_left: "fadd r (Fin 0) (Fin x) = Fin x"
  by (simp add: fadd_def signed_zero_def)

lemma fdiv_zero_zero: "is_zero x \<Longrightarrow> is_zero y \<Longrightarrow> fdiv r x y = NaN"
  by (cases x; cases y) (simp_all add: fdiv_def)

lemma fdiv_neg_by_zero: "x < 0 \<Longrightarrow> fdiv r (Fin x) (Fin 0) = NInf"
  by (simp add: fdiv_def signed_inf_def)

lemma fdiv_pos_by_inf: "0 < x \<Longrightarrow> fdiv r (Fin x) PInf = Fin 0"
  by (simp add: fdiv_def signed_zero_def)

lemma fmul_nan_left: "fmul r NaN y = NaN"
  by (simp add: fmul_def)

lemma fmul_neginf_pos: "0 < c \<Longrightarrow> fmul r NInf (Fin c) = NInf"
  by (simp add: fmul_def signed_inf_def)

lemma fmul_zero_pos: "0 < c \<Longrightarrow> fmul r (Fin 0) (Fin c) = Fin 0"
  by (simp add: fmul_def signed_zero_def)



subsection \<open>Empty tables\<close>

text \<open>
  C1. On a sales table with zero rows (and the columns of the schema), each of
  \<open>peak_sales_hour\<close>, \<open>top_selling_item\<close> and \<open>most_profitable_item\<close> fails with the
  error of the empty maximum (pandas' \<^verbatim>\<open>ValueError\<close>, the specification's
  EmptyInputError) and returns no value.
\<close>

theorem empty_table_group_max_fails:
  assumes "rows df = []"
    and "set [''Time'', ''Item'', ''Quantity'', ''Total Price'', ''Profit''] \<subseteq> set (columns df)"
  shows "peak_sales_hour ar df = Inl ValueError
       \<and> top_selling_item df = Inl ValueError
       \<and> most_profitable_item ar df = Inl ValueError"
  using assms
  by (simp add: peak_sales_hour_def top_selling_item_def most_profitable_item_def
      groupby_agg_def group_keys_Nil)

theorem empty_table_group_max_fails_witness:
  "rows \<lparr>rows = ([] :: sales_row list), columns = sales_columns\<rparr> = []
   \<and> peak_sales_hour binary64 \<lparr>rows = [], columns = sales_columns\<rparr> = Inl ValueError
   \<and> top_selling_item \<lparr>rows = [], columns = sales_columns\<rparr> = Inl ValueError
   \<and> most_profitable_item binary64 \<lparr>rows = [], columns = sales_columns\<rparr> = Inl ValueError"
proof -
  have no_rows: "rows \<lparr>rows = ([] :: sales_row list), columns = sales_columns\<rparr> = []"
    by simp
  have cols: "set [''Time'', ''Item'', ''Quantity'', ''Total Price'', ''Profit'']
                \<subseteq> set (columns \<lparr>rows = ([] :: sales_row list), columns = sales_columns\<rparr>)"
    by (simp add: sales_columns_def)
  from empty_table_group_max_fails [OF no_rows cols, of binary64] no_rows show ?thesis by simp
qed

subsection \<open>Absent columns\<close>

lemma columns_select: "columns (select df flags) = columns df"
  by (simp add: select_def)

text \<open>
  C2, as claimed: every metric function fails with the missing-column error on a table
  that lacks one of its columns. \<open>average_basket_size\<close> does not: it tests the number
  of rows before it reads \<open>Quantity\<close>, and on a frame without rows and without columns
  (\<^verbatim>\<open>pd.DataFrame()\<close>) it returns 0.0.
\<close>

theorem average_basket_size_empty_counterexample:
  "''Quantity'' \<notin> set (columns \<lparr>rows = ([] :: sales_row list), columns = []\<rparr>)
   \<and> average_basket_size binary64 \<lparr>rows = [], columns = []\<rparr> \<noteq> Inl KeyError
   \<and> average_basket_size binary64 \<lparr>rows = [], columns = []\<rparr> = Inr (Fin 0)"
  by (simp add: average_basket_size_def)

text \<open>
  C2, amended. Every metric function that reads columns fails with the missing-column
  error (pandas' \<^verbatim>\<open>KeyError\<close>, the specification's SchemaError) on every table that
  lacks one of the columns it reads, and returns no value; \<open>average_basket_size\<close> does
  so on every table with at least one row, and on a table without rows it returns 0.0
  whatever the columns are. (\<open>number_of_transactions\<close> reads no column.)
\<close>

theorem absent_column_raises:
  "(''Total Price'' \<notin> set (columns df) \<longrightarrow> total_revenue ar df = Inl KeyError)
   \<and> (''Cost per Unit'' \<notin> set (columns df) \<or> ''Quantity'' \<notin> set (columns df)
        \<longrightarrow> total_cost ar df = Inl KeyError)
   \<and> (''Profit'' \<notin> set (columns df) \<longrightarrow> total_profit ar df = Inl KeyError)
   \<and> (''Total Price'' \<notin> set (columns df) \<or> ''Profit'' \<notin> set (columns df)
        \<longrightarrow> gross_margin ar df = Inl KeyError)
   \<and> (''Quantity'' \<notin> set (columns df) \<longrightarrow> total_units_sold df = Inl KeyError)
   \<and> (''Quantity'' \<notin> set (columns df) \<and> rows df \<noteq> []
        \<longrightarrow> average_basket_size ar df = Inl KeyError)
   \<and> (rows df = [] \<longrightarrow> average_basket_size ar df = Inr (Fin 0))
   \<and> (''Time'' \<notin> set (columns df) \<or> ''Total Price'' \<notin> set (columns df)
        \<longrightarrow> peak_sales_hour ar df = Inl KeyError)
   \<and> (''Item'' \<notin> set (columns df) \<or> ''Quantity'' \<notin> set (columns df)
        \<longrightarrow> top_selling_item df = Inl KeyError)
   \<and> (''Item'' \<notin> set (columns df) \<or> ''Profit'' \<notin> set (columns df)
        \<longrightarrow> most_profitable_item ar df = Inl KeyError)
   \<and> (''Item'' \<notin> set (columns df) \<or> ''Quantity'' \<notin> set (columns df)
        \<or> ''Total Price'' \<notin> set (columns df) \<or> ''Profit'' \<notin> set (columns df)
        \<longrightarrow> low_margin_high_sellers ar df margin_threshold qty_threshold = Inl KeyError)
   \<and> (''Stock'' \<notin> set (columns inv_df) \<or> ''Item'' \<notin> set (columns inv_df)
        \<longrightarrow> low_stock_items inv_df threshold = Inl KeyError)
   \<and> (''Stock'' \<notin> set (columns inv_df) \<or> ''Item'' \<notin> set (columns inv_df)
        \<longrightarrow> fast_movers inv_df = Inl KeyError)
   \<and> (''Item'' \<notin> set (columns inv_df) \<or> ''Item'' \<notin> set (columns df)
        \<longrightarrow> unsold_items inv_df df = Inl KeyError)"
proof -
  have 1: "''Total Price'' \<notin> set (columns df) \<longrightarrow> total_revenue ar df = Inl KeyError"
    by (simp add: total_revenue_def getitem_def)
  have 2: "''Cost per Unit'' \<notin> set (columns df) \<or> ''Quantity'' \<notin> set (columns df)
        \<longrightarrow> total_cost ar df = Inl KeyError"
    by (simp add: total_cost_def getitem_def)
  have 3: "''Profit'' \<notin> set (columns df) \<longrightarrow> total_profit ar df = Inl KeyError"
    by (simp add: total_profit_def getitem_def)
  have 4: "''Total Price'' \<notin> set (columns df) \<or> ''Profit'' \<notin> set (columns df)
        \<longrightarrow> gross_margin ar df = Inl KeyError"
    by (simp add: gross_margin_def getitem_def)
  have 5: "''Quantity'' \<notin> set (columns df) \<longrightarrow> total_units_sold df = Inl KeyError"
    by (simp add: total_units_sold_def getitem_def)
  have 6: "''Quantity'' \<notin> set (columns df) \<and> rows df \<noteq> []
        \<longrightarrow> average_basket_size ar df = Inl KeyError"
    by (simp add: average_basket_size_def getitem_def)
  have 7: "rows df = [] \<longrightarrow> average_basket_size ar df = Inr (Fin 0)"
    by (simp add: average_basket_size_def)
  have 8: "''Time'' \<notin> set (columns df) \<or> ''Total Price'' \<notin> set (columns df)
        \<longrightarrow> peak_sales_hour ar df = Inl KeyError"
    by (simp add: peak_sales_hour_def groupby_agg_def)
  have 9: "''Item'' \<notin> set (columns df) \<or> ''Quantity'' \<notin> set (columns df)
        \<longrightarrow> top_selling_item df = Inl KeyError"
    by (simp add: top_selling_item_def groupby_agg_def)
  have 10: "''Item'' \<notin> set (columns df) \<or> ''Profit'' \<notin> set (columns df)
        \<longrightarrow> most_profitable_item ar df = Inl KeyError"
    by (simp add: most_profitable_item_def groupby_agg_def)
  have 11: "''Item'' \<notin> set (columns df) \<or> ''Quantity'' \<notin> set (columns df)
        \<or> ''Total Price'' \<notin> set (columns df) \<or> ''Profit'' \<notin> set (columns df)
        \<longrightarrow> low_margin_high_sellers ar df margin_threshold qty_threshold = Inl KeyError"
    by (simp add: low_margin_high_sellers_def)
  have 12: "''Stock'' \<notin> set (columns inv_df) \<or> ''Item'' \<notin> set (columns inv_df)
        \<longrightarrow> low_stock_items inv_df threshold = Inl KeyError"
    by (simp add: low_stock_items_def getitem_def columns_select)
  have 13: "''Stock'' \<notin> set (columns inv_df) \<or> ''Item'' \<notin> set (columns inv_df)
        \<longrightarrow> fast_movers inv_df = Inl KeyError"
    by (simp add: fast_movers_def getitem_def columns_select)
  have 14: "''Item'' \<notin> set (columns inv_df) \<or> ''Item'' \<notin> set (columns df)
        \<longrightarrow> unsold_items inv_df df = Inl KeyError"
    by (simp add: unsold_items_def getitem_def)
  from 1 2 3 4 5 6 7 8 9 10 11 12 13 14 show ?thesis by blast
qed

theorem absent_column_raises_witness:
  "rows headless_sales \<noteq> [] \<and> columns headless_sales = [] \<and> columns headless_inventory = []
   \<and> total_revenue binary64 headless_sales = Inl KeyError
   \<and> total_cost binary64 headless_sales = Inl KeyError
   \<and> total_profit binary64 headless_sales = Inl KeyError
   \<and> gross_margin binary64 headless_sales = Inl KeyError
   \<and> total_units_sold headless_sales = Inl KeyError
   \<and> average_basket_size binary64 headless_sales = Inl KeyError
   \<and> average_basket_size binary64 \<lparr>rows = [], columns = sales_columns\<rparr> = Inr (Fin 0)
   \<and> peak_sales_hour binary64 headless_sales = Inl KeyError
   \<and> top_selling_item headless_sales = Inl KeyError
   \<and> most_profitable_item binary64 headless_sales = Inl KeyError
   \<and> low_margin_high_sellers binary64 headless_sales (Fin 10) 5 = Inl KeyError
   \<and> low_stock_items headless_inventory 10 = Inl KeyError
   \<and> fast_movers headless_inventory = Inl KeyError
   \<and> unsold_items headless_inventory headless_sales = Inl KeyError"
proof -
  have ne: "rows headless_sales \<noteq> []" and c: "columns headless_sales = []"
    and ci: "columns headless_inventory = []"
    by (simp_all add: headless_sales_def headless_inventory_def)
  have e: "rows \<lparr>rows = ([] :: sales_row list), columns = sales_columns\<rparr> = []" by simp
  from absent_column_raises [of headless_sales binary64 "Fin 10" 5 headless_inventory 10]
    absent_column_raises [of "\<lparr>rows = [], columns = sales_columns\<rparr>" binary64 "Fin 10" 5
      headless_inventory 10]
    ne c ci e
  show ?thesis by simp
qed

subsection \<open>Gross margin\<close>

text \<open>
  C3. On a sales table whose \<open>Total Price\<close> values sum to a nonzero value,
  \<open>gross_margin\<close> returns the sum of \<open>Profit\<close> divided by the sum of \<open>Total Price\<close>,
  times 100, the sums, the quotient and the product being those of float arithmetic; on
  a table whose \<open>Total Price\<close> values sum to a zero, and on the empty table, it returns
  the float 0.0: neither NaN nor an error.
\<close>

theorem gross_margin_value:
  assumes "set [''Total Price'', ''Profit''] \<subseteq> set (columns df)"
  shows "(rows df \<noteq> [] \<and> \<not> is_zero (series_sum ar (map Total_Price (rows df))) \<longrightarrow>
            gross_margin ar df =
              Inr (fmul (rnd ar)
                     (fdiv (rnd ar) (series_sum ar (map Profit (rows df)))
                                    (series_sum ar (map Total_Price (rows df))))
                     (Fin 100)))
       \<and> (rows df \<noteq> [] \<and> is_zero (series_sum ar (map Total_Price (rows df))) \<longrightarrow>
            gross_margin ar df = Inr (Fin 0))
       \<and> (rows df = [] \<longrightarrow> gross_margin ar df = Inr (Fin 0))"
  using assms by (simp add: gross_margin_def getitem_def float_sum_def)

theorem gross_margin_value_witness:
  "gross_margin binary64 example_sales = Inr (Fin (4797868921204363 / 70368744177664))
   \<and> gross_margin binary64 overflow_sales = Inr (Fin 0)
   \<and> gross_margin binary64 (example_sales\<lparr>rows := map (\<lambda>r. r\<lparr>Total_Price := Fin 0\<rparr>) (rows example_sales)\<rparr>)
        = Inr (Fin 0)
   \<and> gross_margin binary64 \<lparr>rows = [], columns = sales_columns\<rparr> = Inr (Fin 0)"
proof -
  let ?free = "example_sales\<lparr>rows := map (\<lambda>r. r\<lparr>Total_Price := Fin 0\<rparr>) (rows example_sales)\<rparr>"
  let ?none = "\<lparr>rows = ([] :: sales_row list), columns = sales_columns\<rparr>"
  have c1: "set [''Total Price'', ''Profit''] \<subseteq> set (columns example_sales)"
    and c2: "set [''Total Price'', ''Profit''] \<subseteq> set (columns overflow_sales)"
    and c3: "set [''Total Price'', ''Profit''] \<subseteq> set (columns ?free)"
    and c4: "set [''Total Price'', ''Profit''] \<subseteq> set (columns ?none)"
    by (simp_all add: example_sales_def overflow_sales_def sales_columns_def)
  have r1: "series_sum binary64 (map Total_Price (rows example_sales)) = Fin 11"
    and p1: "series_sum binary64 (map Profit (rows example_sales)) = Fin (15 / 2)"
    and r2: "series_sum binary64 (map Total_Price (rows overflow_sales)) = PInf"
    and p2: "series_sum binary64 (map Profit (rows overflow_sales)) = Fin 2"
    and r3: "series_sum binary64 (map Total_Price (rows ?free)) = Fin 0"
    by (simp_all add: example_sales_def overflow_sales_def binary64_def sequential_sum_two
        fadd_zero_left add_9_2 add_6_1h add_overflow [simplified] add_1_1)
  have ne: "rows example_sales \<noteq> []" "rows overflow_sales \<noteq> []" "rows ?free \<noteq> []"
    by (simp_all add: example_sales_def overflow_sales_def)
  have rn: "rnd binary64 = round64" by (simp add: binary64_def)
  from gross_margin_value [OF c1, of binary64] gross_margin_value [OF c2, of binary64]
    gross_margin_value [OF c3, of binary64] gross_margin_value [OF c4, of binary64]
  show ?thesis
    unfolding r1 p1 r2 p2 r3 rn
    using ne by (simp add: div_7h_11 mul_margin_68 fdiv_pos_by_inf fmul_zero_pos)
qed

subsection \<open>The group with the maximal sum\<close>





subsection \<open>Flagged items\<close>

lemma grouped_margin_filter:
  "set (map fst (filter (\<lambda>(k, q, m). P k q m) (map (\<lambda>(k, q, r, p). (k, q, M r p)) (map (\<lambda>k. (k, Q k, R k, S k)) ks))))
     = {k \<in> set ks. P k (Q k) (M (R k) (S k))}"
  by (induction ks) auto




text \<open>
  C10. On a sales table with an item group whose summed \<open>Total Price\<close> is zero,
  \<open>low_margin_high_sellers\<close> returns a list and raises nothing, whatever the
  thresholds; and when the summed \<open>Profit\<close> of that group is zero as well, its margin is
  NaN, the comparison with the threshold is false, and the item is not in the list. The
  sums are the float sums the code computes.
\<close>

theorem zero_revenue_group:
  assumes "set [''Item'', ''Quantity'', ''Total Price'', ''Profit''] \<subseteq> set (columns df)"
    and "k \<in> Item ` set (rows df)"
    and "is_zero (group_sum ar (map Total_Price (filter (\<lambda>r. Item r = k) (rows df))))"
  shows "\<exists>res. low_margin_high_sellers ar df margin_threshold qty_threshold = Inr res
           \<and> (is_zero (group_sum ar (map Profit (filter (\<lambda>r. Item r = k) (rows df))))
                \<longrightarrow> k \<notin> set res)"
proof -
  let ?res = "map fst (filter (\<lambda>(k, q, m). qty_threshold \<le> sint q \<and> flt m margin_threshold)
                (map (\<lambda>(k, q, r, p). (k, q, fmul (rnd ar) (fdiv (rnd ar) p r) (Fin 100)))
                  (map (\<lambda>k. (k, sum_list (map Quantity (filter (\<lambda>r. Item r = k) (rows df))),
                                 group_sum ar (map Total_Price (filter (\<lambda>r. Item r = k) (rows df))),
                                 group_sum ar (map Profit (filter (\<lambda>r. Item r = k) (rows df)))))
                       (group_keys Item (rows df)))))"
  from assms(1) have run: "low_margin_high_sellers ar df margin_threshold qty_threshold = Inr ?res"
    by (simp add: low_margin_high_sellers_def)
  have "k \<notin> set ?res"
    if "is_zero (group_sum ar (map Profit (filter (\<lambda>r. Item r = k) (rows df))))"
  proof -
    have "fmul (rnd ar)
            (fdiv (rnd ar) (group_sum ar (map Profit (filter (\<lambda>r. Item r = k) (rows df))))
                           (group_sum ar (map Total_Price (filter (\<lambda>r. Item r = k) (rows df)))))
            (Fin 100) = NaN"
      using that assms(3) by (simp add: fdiv_zero_zero fmul_nan_left)
    then show ?thesis
      by (simp only: grouped_margin_filter) simp
  qed
  with run show ?thesis by blast
qed

theorem zero_revenue_group_witness:
  "is_zero (group_sum binary64 (map Total_Price (filter (\<lambda>r. Item r = ''Flyer'') (rows giveaway_sales))))
   \<and> is_zero (group_sum binary64 (map Profit (filter (\<lambda>r. Item r = ''Flyer'') (rows giveaway_sales))))
   \<and> low_margin_high_sellers binary64 giveaway_sales (Fin 10) 5 = Inr [''Milk'', ''Sample'']
   \<and> ''Flyer'' \<notin> set [''Milk'', ''Sample'']"
proof -
  have cols: "set [''Item'', ''Quantity'', ''Total Price'', ''Profit''] \<subseteq> set (columns giveaway_sales)"
    by (simp add: giveaway_sales_def sales_columns_def)
  have k: "''Flyer'' \<in> Item ` set (rows giveaway_sales)"
    by (simp add: giveaway_sales_def)
  have r0: "is_zero (group_sum binary64 (map Total_Price (filter (\<lambda>r. Item r = ''Flyer'') (rows giveaway_sales))))"
    and p0: "is_zero (group_sum binary64 (map Profit (filter (\<lambda>r. Item r = ''Flyer'') (rows giveaway_sales))))"
    by (simp_all add: giveaway_sales_def binary64_def sequential_sum_one fadd_zero_left)
  have run: "low_margin_high_sellers binary64 giveaway_sales (Fin 10) 5 = Inr [''Milk'', ''Sample'']"
    by (simp add: giveaway_sales_def sales_columns_def low_margin_high_sellers_def group_keys_def
        binary64_def sequential_sum_one fadd_zero_left fdiv_zero_zero fmul_nan_left
        fdiv_neg_by_zero fmul_neginf_pos div_1_16 mul_16th_100)
  from zero_revenue_group [OF cols k r0, of "Fin 10" 5] r0 p0 run show ?thesis by simp
qed

subsection \<open>Profit, revenue and cost\<close>

lemma sum_list_exact_profit:
  "\<forall>r \<in> set rs. exactly_consistent r \<Longrightarrow>
   sum_list (map (\<lambda>r. fval (Profit r)) rs)
     = sum_list (map (\<lambda>r. fval (Total_Price r)) rs) - sum_list (map exact_cost rs)"
proof (induction rs)
  case Nil
  then show ?case by simp
next
  case (Cons r rs)
  from Cons.prems have "exactly_consistent r" by simp
  then have "fval (Profit r) = fval (Total_Price r) - exact_cost r"
    by (auto simp: exactly_consistent_def exact_cost_def split: pyfloat.splits)
  with Cons show ?case by simp
qed

lemma map_zip_columns: "map f (zip (map g xs) (map h xs)) = map (\<lambda>x. f (g x, h x)) xs"
  by (induction xs) simp_all

text \<open>
  C7, as claimed: on a sales table in which each row's \<open>Profit\<close> equals its
  \<open>Total Price\<close> minus unit cost times quantity, \<open>total_profit\<close> equals
  \<open>total_revenue\<close> minus \<open>total_cost\<close>. In binary64 it does not: on the two rows of
  \<open>rounding_sales\<close> every row is consistent (exactly, and as floats), the profits sum
  to \<^verbatim>\<open>0.4\<close>, and revenue minus cost is \<^verbatim>\<open>0.3999999999999999\<close>. (On two values every
  order of summation gives the same sum.)
\<close>

theorem profit_identity_rounding_counterexample:
  "consistent binary64 rounding_sales
   \<and> total_profit binary64 rounding_sales = Inr (Fin (3602879701896397 / 9007199254740992))
   \<and> total_revenue binary64 rounding_sales = Inr (Fin (3152519739159347 / 4503599627370496))
   \<and> total_cost binary64 rounding_sales = Inr (Fin (1351079888211149 / 4503599627370496))
   \<and> fsub (rnd binary64) (Fin (3152519739159347 / 4503599627370496))
        (Fin (1351079888211149 / 4503599627370496))
       = Fin (900719925474099 / 2251799813685248)
   \<and> Fin (3602879701896397 / 9007199254740992) \<noteq> Fin (900719925474099 / 2251799813685248)"
  by (simp add: consistent_def row_profit_def rounding_sales_def sales_columns_def
      total_profit_def total_revenue_def total_cost_def getitem_def float_sum_def
      binary64_def sequential_sum_two fadd_zero_left
      lit_0_1 lit_0_2 lit_0_3 int_1 mul_01_1 mul_02_1 sub_02_01 sub_05_02
      add_01_03 add_02_05 add_01_02 sub_07_03)

text \<open>
  C7, amended. On a sales table in which each row's \<open>Profit\<close> is exactly its
  \<open>Total Price\<close> minus unit cost times quantity, and on which no operation rounds (the
  products of unit cost and quantity, the sums of the three columns and the final
  difference are exact), \<open>total_profit\<close> equals \<open>total_revenue\<close> minus \<open>total_cost\<close>.
\<close>

theorem profit_identity_when_exact:
  assumes "set [''Total Price'', ''Cost per Unit'', ''Quantity'', ''Profit''] \<subseteq> set (columns df)"
    and "\<forall>r \<in> set (rows df). exactly_consistent r"
    and "\<forall>r \<in> set (rows df).
           fmul (rnd ar) (Cost_per_Unit r) (float_of_int (rnd ar) (sint (Quantity r)))
             = Fin (exact_cost r)"
    and "exact_sum ar (map Total_Price (rows df))"
    and "exact_sum ar (map Profit (rows df))"
    and "exact_sum ar (map (\<lambda>r. Fin (exact_cost r)) (rows df))"
    and "fsub (rnd ar) (Fin (sum_list (map (\<lambda>r. fval (Total_Price r)) (rows df))))
                       (Fin (sum_list (map exact_cost (rows df))))
           = Fin (sum_list (map (\<lambda>r. fval (Total_Price r)) (rows df))
                  - sum_list (map exact_cost (rows df)))"
  shows "\<exists>p r c. total_profit ar df = Inr p \<and> total_revenue ar df = Inr r
           \<and> total_cost ar df = Inr c \<and> p = fsub (rnd ar) r c"
proof -
  from assms(1,5) have p: "total_profit ar df = Inr (Fin (sum_list (map (\<lambda>r. fval (Profit r)) (rows df))))"
    by (simp add: total_profit_def getitem_def exact_sum_def comp_def)
  from assms(1,4) have r: "total_revenue ar df = Inr (Fin (sum_list (map (\<lambda>r. fval (Total_Price r)) (rows df))))"
    by (simp add: total_revenue_def getitem_def exact_sum_def comp_def)
  have "map (\<lambda>(c, q). fmul (rnd ar) c (float_of_int (rnd ar) (sint q)))
          (zip (map Cost_per_Unit (rows df)) (map Quantity (rows df)))
        = map (\<lambda>r. fmul (rnd ar) (Cost_per_Unit r) (float_of_int (rnd ar) (sint (Quantity r)))) (rows df)"
    by (simp add: map_zip_columns)
  also from assms(3) have "\<dots> = map (\<lambda>r. Fin (exact_cost r)) (rows df)" by simp
  finally have "total_cost ar df = Inr (float_sum ar (map (\<lambda>r. Fin (exact_cost r)) (rows df)))"
    using assms(1) by (simp add: total_cost_def getitem_def)
  with assms(6) have c: "total_cost ar df = Inr (Fin (sum_list (map exact_cost (rows df))))"
    by (simp add: exact_sum_def comp_def)
  from sum_list_exact_profit [OF assms(2)] assms(7)
  have "Fin (sum_list (map (\<lambda>r. fval (Profit r)) (rows df)))
          = fsub (rnd ar) (Fin (sum_list (map (\<lambda>r. fval (Total_Price r)) (rows df))))
                          (Fin (sum_list (map exact_cost (rows df))))"
    by simp
  with p r c show ?thesis by blast
qed

theorem profit_identity_when_exact_witness:
  "total_profit binary64 example_sales = Inr (Fin (15 / 2))
   \<and> total_revenue binary64 example_sales = Inr (Fin 11)
   \<and> total_cost binary64 example_sales = Inr (Fin (7 / 2))
   \<and> Fin (15 / 2) = fsub (rnd binary64) (Fin 11) (Fin (7 / 2))"
proof -
  have cols: "set [''Total Price'', ''Cost per Unit'', ''Quantity'', ''Profit''] \<subseteq> set (columns example_sales)"
    by (simp add: example_sales_def sales_columns_def)
  have con: "\<forall>r \<in> set (rows example_sales). exactly_consistent r"
    by (simp add: example_sales_def exactly_consistent_def)
  have prod: "\<forall>r \<in> set (rows example_sales).
           fmul (rnd binary64) (Cost_per_Unit r) (float_of_int (rnd binary64) (sint (Quantity r)))
             = Fin (exact_cost r)"
    by (simp add: example_sales_def exact_cost_def binary64_def int_1 int_3 mul_1_3 mul_h_1)
  have s1: "exact_sum binary64 (map Total_Price (rows example_sales))"
    and s2: "exact_sum binary64 (map Profit (rows example_sales))"
    and s3: "exact_sum binary64 (map (\<lambda>r. Fin (exact_cost r)) (rows example_sales))"
    by (simp_all add: exact_sum_def float_sum_def example_sales_def exact_cost_def binary64_def
        sequential_sum_two fadd_zero_left add_9_2 add_6_1h add_3_h)
  have d: "fsub (rnd binary64) (Fin (sum_list (map (\<lambda>r. fval (Total_Price r)) (rows example_sales))))
                       (Fin (sum_list (map exact_cost (rows example_sales))))
           = Fin (sum_list (map (\<lambda>r. fval (Total_Price r)) (rows example_sales))
                  - sum_list (map exact_cost (rows example_sales)))"
    by (simp add: example_sales_def exact_cost_def binary64_def sub_11_3h)
  have vals: "total_profit binary64 example_sales = Inr (Fin (15 / 2))"
    "total_revenue binary64 example_sales = Inr (Fin 11)"
    "total_cost binary64 example_sales = Inr (Fin (7 / 2))"
    by (simp_all add: total_profit_def total_revenue_def total_cost_def getitem_def float_sum_def
        example_sales_def sales_columns_def binary64_def sequential_sum_two fadd_zero_left
        int_1 int_3 mul_1_3 mul_h_1 add_9_2 add_6_1h add_3_h)
  from profit_identity_when_exact [OF cols con prod s1 s2 s3 d] vals
  show ?thesis by simp
qed

subsection \<open>Unsold items\<close>

text \<open>
  C6. \<open>unsold_items\<close> returns, as a set, exactly the inventory items that occur nowhere
  in the \<open>Item\<close> column of the sales table: the empty set when every inventory item was
  sold at least once, and all inventory items when the sales table has no rows.
\<close>

theorem unsold_items_set_difference:
  assumes "''Item'' \<in> set (columns inventory_df)" and "''Item'' \<in> set (columns sales_df)"
  shows "unsold_items inventory_df sales_df
           = Inr (inv_Item ` set (rows inventory_df) - Item ` set (rows sales_df))
       \<and> (inv_Item ` set (rows inventory_df) \<subseteq> Item ` set (rows sales_df)
            \<longrightarrow> unsold_items inventory_df sales_df = Inr {})
       \<and> (rows sales_df = []
            \<longrightarrow> unsold_items inventory_df sales_df = Inr (inv_Item ` set (rows inventory_df)))"
  using assms by (auto simp add: unsold_items_def getitem_def)

theorem unsold_items_set_difference_witness:
  "unsold_items example_inventory example_sales = Inr {''Milk''}
   \<and> unsold_items (example_inventory\<lparr>rows := [\<lparr>inv_Item = ''Tea'', Stock = 50\<rparr>]\<rparr>) example_sales = Inr {}
   \<and> unsold_items example_inventory \<lparr>rows = [], columns = sales_columns\<rparr>
        = Inr {''Coffee'', ''Tea'', ''Milk''}"
proof -
  have i: "''Item'' \<in> set (columns example_inventory)"
    "''Item'' \<in> set (columns (example_inventory\<lparr>rows := [\<lparr>inv_Item = ''Tea'', Stock = 50\<rparr>]\<rparr>))"
    by (simp_all add: example_inventory_def)
  have s: "''Item'' \<in> set (columns example_sales)"
    "''Item'' \<in> set (columns \<lparr>rows = ([] :: sales_row list), columns = sales_columns\<rparr>)"
    by (simp_all add: example_sales_def sales_columns_def)
  from unsold_items_set_difference [OF i(1) s(1)]
    unsold_items_set_difference [OF i(2) s(1)]
    unsold_items_set_difference [OF i(1) s(2)]
  show ?thesis
    by (simp add: example_inventory_def example_sales_def) 
qed

subsection \<open>Optional lines of the summary\<close>

lemma join_Cons: "join sep (x # xs) = x @ concat (map (\<lambda>y. sep @ y) xs)"
  by (induction xs arbitrary: x) simp_all

lemma listed_line_cases:
  "listed_line label xs = (if truthy xs then [label @ join '', '' (items_of xs) @ ''.''] else [])"
  by (cases xs rule: truthy.cases) (simp_all add: listed_line_def)

lemma split_on_no_sep: "c \<notin> set l \<Longrightarrow> split_on c l = [l]"
  by (induction l) auto

lemma split_on_append: "c \<notin> set l \<Longrightarrow> split_on c (l @ c # rest) = l # split_on c rest"
  by (induction l) auto

lemma split_on_lines:
  "c \<notin> set l \<Longrightarrow> \<forall>m \<in> set ls. c \<notin> set m \<Longrightarrow>
   split_on c (l @ concat (map (\<lambda>y. [c] @ y) ls)) = l # ls"
proof (induction ls arbitrary: l)
  case Nil
  then show ?case by (simp add: split_on_no_sep)
next
  case (Cons m ls)
  then have "split_on c (m @ concat (map (\<lambda>y. [c] @ y) ls)) = m # ls" by simp
  with Cons.prems(1) show ?case by (simp add: split_on_append)
qed

text \<open>
  C8. For every bundle the summary is the first line followed, each on a line of its own,
  by the lines of exactly those of the four lists (low stock, unsold, fast movers,
  high-selling low-margin) that are not empty, in this order; each such line is the fixed
  label, the list joined by commas, and a full stop. An empty or absent list contributes
  nothing. Where neither the first line nor an item name contains a newline, these are
  exactly the lines of the summary.
\<close>

theorem optional_lines_of_summary:
  "natural_language_summary fmt b = join ''\<newline>'' (report_lines fmt b)
   \<and> ((\<forall>l \<in> set (report_lines fmt b). CHR 0x0A \<notin> set l) \<longrightarrow>
        split_on CHR 0x0A (natural_language_summary fmt b) = report_lines fmt b)"
proof -
  have eq: "natural_language_summary fmt b = join ''\<newline>'' (report_lines fmt b)"
    by (simp add: natural_language_summary_def report_lines_def join_Cons listed_line_cases Let_def)
  obtain l ls where r: "report_lines fmt b = l # ls" by (simp add: report_lines_def)
  have "split_on CHR 0x0A (join ''\<newline>'' (report_lines fmt b)) = report_lines fmt b"
    if clean: "\<forall>l \<in> set (report_lines fmt b). CHR 0x0A \<notin> set l"
  proof -
    from clean r have "CHR 0x0A \<notin> set l" and "\<forall>m \<in> set ls. CHR 0x0A \<notin> set m" by simp_all
    then have "split_on CHR 0x0A (l @ concat (map (\<lambda>y. [CHR 0x0A] @ y) ls)) = l # ls"
      by (rule split_on_lines)
    then show ?thesis unfolding r join_Cons .
  qed
  with eq show ?thesis by simp
qed

theorem optional_lines_of_summary_witness:
  "split_on CHR 0x0A (natural_language_summary example_formatters example_bundle)
     = [summary_head example_formatters example_bundle,
        ''Low stock items: Coffee, Milk.'',
        ''High-selling, low-margin items: Milk.'']"
proof -
  have lines: "report_lines example_formatters example_bundle
     = [summary_head example_formatters example_bundle,
        ''Low stock items: Coffee, Milk.'',
        ''High-selling, low-margin items: Milk.'']"
    by (simp add: report_lines_def listed_line_def example_bundle_def)
  have "CHR 0x0A \<notin> set (summary_head example_formatters example_bundle)"
    by (simp add: summary_head_def example_formatters_def example_bundle_def)
  then have clean: "\<forall>l \<in> set (report_lines example_formatters example_bundle). CHR 0x0A \<notin> set l"
    unfolding lines by simp
  from optional_lines_of_summary [of example_formatters example_bundle] clean
  have "split_on CHR 0x0A (natural_language_summary example_formatters example_bundle)
          = report_lines example_formatters example_bundle"
    by blast
  then show ?thesis unfolding lines .
qed

lemma example_bundle_summary:
  "natural_language_summary fmt example_bundle
     = summary_head fmt example_bundle
       @ ''\<newline>Low stock items: Coffee, Milk.\<newline>High-selling, low-margin items: Milk.''"
  by (simp add: natural_language_summary_def example_bundle_def)

end
